theory Spec2Isabelle
  imports Main
begin

section \<open>The \<open>haproxy\<close> multi-task of grunt-haproxy (tasks/haproxy.js)\<close>

text \<open>
  The task body iterates over the file groups of its target (\<open>this.files.forEach\<close>) and,
  inside each group, over the group's \<open>src\<close> entries (\<open>f.src.filter\<close>). The callback of
  \<open>filter\<close> does all the work: it looks for the PID file \<open>f.dest[0]\<close>, tries to signal the
  process named there and to delete the file, spawns \<open>haproxy\<close> and registers a listener
  for the child's \<open>close\<close> event. The listener queues a notification task.

  The Node.js calls the callback makes (\<open>fs.existsSync\<close>, \<open>fs.readFileSync\<close>,
  \<open>process.kill\<close>, \<open>fs.unlinkSync\<close>, \<open>child_process.spawn\<close>) are the program's
  environment. They are modelled on an explicit state: a file system, and for each call
  that may throw a table saying whether it throws and what. Every call is recorded, in
  order, so that statements about what happens before what can be made.
\<close>

subsection \<open>Data\<close>

type_synonym path = string

text \<open>The errors the environment's calls throw (\<open>ERR_INVALID_ARG\<close>: the \<open>TypeError\<close>
  of a call that rejects its argument, such as \<open>process.kill\<close> on something that is not
  a process id).\<close>

datatype js_error = ENOENT | EACCES | EISDIR | ESRCH | EPERM | ERR_INVALID_ARG

text \<open>One entry of \<open>this.files\<close>: \<open>f.src\<close> and \<open>f.dest\<close>.\<close>

record file_group =
  src :: "path list"
  dest :: "path list"

text \<open>\<open>f.dest[0]\<close>; \<open>None\<close> is JavaScript's \<open>undefined\<close>, the value of the expression
  when \<open>f.dest\<close> has no element.\<close>

definition dest0 :: "file_group \<Rightarrow> path option" where
  "dest0 f = (case dest f of [] \<Rightarrow> None | d # _ \<Rightarrow> Some d)"

text \<open>
  \<open>_instance\<close>: the child process \<open>spawn\<close> returns, with what its \<open>close\<close> listener closes
  over. \<open>cfg\<close> is the argument passed after \<open>'-f '\<close> and \<open>pidfile\<close> the one after
  \<open>'-p '\<close> (the command \<open>haproxy\<close>, the flag \<open>-D\<close> and \<open>detached: true\<close> are the same for
  every spawn); \<open>fdest\<close> is the captured \<open>f.dest\<close>; \<open>cell\<close> names the captured variable
  \<open>_restart\<close>.
\<close>

record child =
  cfg :: path
  pidfile :: "path option"
  fdest :: "path list"
  cell :: nat

text \<open>The calls into the environment, as recorded.\<close>

datatype call =
    ExistsSync "path option"
  | ReadFileSync "path option"
  | Kill string
  | UnlinkSync "path option"
  | Spawn child

text \<open>The two lines the \<open>close\<close> listener prints with \<open>console.log\<close>. An exit code
  of \<open>None\<close> is \<open>null\<close> (the child was ended by a signal).\<close>

datatype log_line =
    LogStarted child "int option"
  | LogExited "int option"

text \<open>
  The state. \<open>files\<close> is the file system (path to content). \<open>read_error\<close>,
  \<open>kill_error\<close> and \<open>unlink_error\<close> say what the call throws on an argument, \<open>None\<close>
  when it succeeds (for \<open>kill_error\<close>: when a process is there and takes the signal). \<open>plugin_root\<close> is \<open>path.dirname(__dirname)\<close>. \<open>restart\<close> holds the
  \<open>_restart\<close> variables, one cell for each run of the \<open>forEach\<close> callback (\<open>False\<close> is
  \<open>undefined\<close>), and \<open>next_cell\<close> is the next unused cell. \<open>calls\<close> is the record of the
  calls, \<open>queue\<close> the task names handed to \<open>grunt.task.run\<close>, \<open>done_calls\<close> counts the
  calls of \<open>done()\<close>, \<open>console\<close> is what was logged.
\<close>

record state =
  files :: "path \<Rightarrow> string option"
  read_error :: "path \<Rightarrow> js_error option"
  kill_error :: "string \<Rightarrow> js_error option"
  unlink_error :: "path \<Rightarrow> js_error option"
  plugin_root :: path
  next_cell :: nat
  restart :: "nat \<Rightarrow> bool"
  calls :: "call list"
  queue :: "string list"
  done_calls :: nat
  console :: "log_line list"

subsection \<open>The environment's calls\<close>

definition record_call :: "call \<Rightarrow> state \<Rightarrow> state" where
  "record_call c st = st\<lparr>calls := calls st @ [c]\<rparr>"

text \<open>
  \<open>path.resolve(base, p)\<close>, for an absolute \<open>base\<close> (\<open>__dirname\<close> and its \<open>dirname\<close>
  always are). An absolute \<open>p\<close> stands, a relative one is taken below \<open>base\<close>; then the
  path is cut into its segments at the slashes, empty segments and \<open>.\<close> are dropped,
  \<open>..\<close> drops the segment before it (none at the root), and the segments are put
  together again, each after a slash.
\<close>

fun segments :: "string \<Rightarrow> string \<Rightarrow> string list" where
  "segments seg [] = [rev seg]"
| "segments seg (c # cs) =
     (if c = CHR ''/'' then rev seg # segments [] cs else segments (c # seg) cs)"

fun normalize_segments :: "string list \<Rightarrow> string list \<Rightarrow> string list" where
  "normalize_segments up [] = rev up"
| "normalize_segments up (s # ss) =
     (if s = [] \<or> s = ''.'' then normalize_segments up ss
      else if s = ''..'' then normalize_segments (case up of [] \<Rightarrow> [] | s' # r \<Rightarrow> r) ss
      else normalize_segments (s # up) ss)"

definition path_resolve :: "path \<Rightarrow> path \<Rightarrow> path" where
  "path_resolve base p =
     (let whole = (case p of [] \<Rightarrow> base
                   | c # cs \<Rightarrow> if c = CHR ''/'' then p else base @ ''/'' @ p);
          segs = normalize_segments [] (segments [] whole)
      in if segs = [] then ''/'' else concat (map (\<lambda>s. CHR ''/'' # s) segs))"

text \<open>\<open>fs.existsSync\<close> never throws; on \<open>undefined\<close> it answers \<open>false\<close>.\<close>

definition existsSync :: "path option \<Rightarrow> state \<Rightarrow> bool \<times> state" where
  "existsSync p st =
     ((case p of None \<Rightarrow> False | Some q \<Rightarrow> files st q \<noteq> None),
      record_call (ExistsSync p) st)"

definition readFileSync :: "path option \<Rightarrow> state \<Rightarrow> (js_error + string) \<times> state" where
  "readFileSync p st =
     ((case p of
         None \<Rightarrow> Inl ERR_INVALID_ARG
       | Some q \<Rightarrow>
           (case files st q of
              None \<Rightarrow> Inl ENOENT
            | Some c \<Rightarrow> (case read_error st q of Some e \<Rightarrow> Inl e | None \<Rightarrow> Inr c))),
      record_call (ReadFileSync p) st)"

text \<open>
  \<open>process.kill(pid)\<close>, with the default signal \<open>SIGTERM\<close>. The call takes \<open>pid\<close> as
  the text read from the PID file and lets the runtime make a number of it; the table
  \<open>kill_error\<close> says what comes of that: \<open>Some e\<close>, the call throws \<open>e\<close>
  (\<open>ERR_INVALID_ARG\<close> for what the runtime takes for no process id, \<open>ESRCH\<close> when no
  process is found, \<open>EPERM\<close> when the signal is refused); \<open>None\<close>, a process (for a
  negative number, a process group) is there and the signal is sent to it. The call only
  sends the signal and returns: it does not wait for the process to end, and the process
  is still there until the environment takes it away. (A \<open>pid\<close> the runtime reads as 0,
  such as the empty text, names the task's own process group; the signal then ends the
  task itself, which this table does not express.)
\<close>

definition process_kill :: "string \<Rightarrow> state \<Rightarrow> (js_error + unit) \<times> state" where
  "process_kill pid st =
     (case kill_error st pid of
        Some e \<Rightarrow> (Inl e, record_call (Kill pid) st)
      | None \<Rightarrow> (Inr (), record_call (Kill pid) st))"

definition unlinkSync :: "path option \<Rightarrow> state \<Rightarrow> (js_error + unit) \<times> state" where
  "unlinkSync p st =
     (case p of
        None \<Rightarrow> (Inl ERR_INVALID_ARG, record_call (UnlinkSync p) st)
      | Some q \<Rightarrow>
          (case files st q of
             None \<Rightarrow> (Inl ENOENT, record_call (UnlinkSync p) st)
           | Some c \<Rightarrow>
               (case unlink_error st q of
                  Some e \<Rightarrow> (Inl e, record_call (UnlinkSync p) st)
                | None \<Rightarrow> (Inr (), record_call (UnlinkSync p) (st\<lparr>files := (files st)(q := None)\<rparr>)))))"

text \<open>\<open>spawn('haproxy', ['-f ', _path, '-p ', f.dest[0], '-D'], {detached: true})\<close>
  returns the child at once; Node.js reports a failed spawn later, through the child's
  \<open>error\<close> event, for which the task registers no listener.\<close>

definition spawn :: "path \<Rightarrow> file_group \<Rightarrow> nat \<Rightarrow> state \<Rightarrow> child \<times> state" where
  "spawn p f g st =
     (let inst = \<lparr>cfg = p, pidfile = dest0 f, fdest = dest f, cell = g\<rparr>
      in (inst, record_call (Spawn inst) st))"

definition console_log :: "log_line \<Rightarrow> state \<Rightarrow> state" where
  "console_log l st = st\<lparr>console := console st @ [l]\<rparr>"

text \<open>\<open>grunt.task.run(names)\<close> appends the task names to the queue.\<close>

definition task_run :: "string list \<Rightarrow> state \<Rightarrow> state" where
  "task_run names st = st\<lparr>queue := queue st @ names\<rparr>"

definition done_async :: "state \<Rightarrow> state" where
  "done_async st = st\<lparr>done_calls := Suc (done_calls st)\<rparr>"

subsection \<open>The task\<close>

text \<open>
  The \<open>try\<close> block with its \<open>catch\<close>, which is empty: whatever a call throws, the rest
  of the block is skipped and nothing else happens. What the calls before the throw did
  stays done.
\<close>

definition try_block :: "nat \<Rightarrow> file_group \<Rightarrow> state \<Rightarrow> state" where
  "try_block g f st =
     (case readFileSync (dest0 f) st of
        (Inl e, st1) \<Rightarrow> st1
      | (Inr pid, st1) \<Rightarrow>
          (case process_kill pid st1 of
             (Inl e, st2) \<Rightarrow> st2
           | (Inr u, st2) \<Rightarrow>
               (case unlinkSync (dest0 f) st2 of
                  (Inl e, st3) \<Rightarrow> st3
                | (Inr u', st3) \<Rightarrow> st3\<lparr>restart := (restart st3)(g := True)\<rparr>)))"

text \<open>The callback of \<open>f.src.filter\<close>, for the group \<open>f\<close> whose \<open>_restart\<close> is the
  cell \<open>g\<close>, on the entry \<open>filepath\<close>. (The listeners for the child's \<open>stdout\<close> and
  \<open>stderr\<close> only print what the child writes; they are left out.)\<close>

definition filter_callback :: "nat \<Rightarrow> file_group \<Rightarrow> path \<Rightarrow> state \<Rightarrow> state" where
  "filter_callback g f filepath st =
     (let path' = path_resolve (plugin_root st) filepath;
          (ex, st1) = existsSync (dest0 f) st;
          st2 = (if ex then try_block g f st1 else st1);
          (inst, st3) = spawn path' f g st2
      in st3)"

text \<open>The listener of the child's \<open>close\<close> event.\<close>

definition close_listener :: "child \<Rightarrow> int option \<Rightarrow> state \<Rightarrow> state" where
  "close_listener inst code st =
     (let st1 = console_log (LogStarted inst code) st;
          st2 = (if restart st1 (cell inst)
                 then task_run [''notify:haproxyReloaded''] st1
                 else task_run [''notify:haproxyStarted''] st1);
          st3 = done_async st2
      in if code \<noteq> Some 0 then console_log (LogExited code) st3 else st3)"

text \<open>The callback of \<open>this.files.forEach\<close>: \<open>var _restart\<close> is a new variable, and
  the \<open>filter\<close> callback runs on every entry of \<open>f.src\<close>, in order. (The callback
  returns nothing, so the list \<open>filter\<close> builds is empty; the task does not use it.)\<close>

definition forEach_callback :: "file_group \<Rightarrow> state \<Rightarrow> state" where
  "forEach_callback f st =
     (let g = next_cell st;
          st0 = st\<lparr>next_cell := Suc g, restart := (restart st)(g := False)\<rparr>
      in fold (filter_callback g f) (src f) st0)"

text \<open>The task body, on \<open>this.files\<close>. (The options the task merges are used nowhere.)\<close>

definition haproxy_task :: "file_group list \<Rightarrow> state \<Rightarrow> state" where
  "haproxy_task fs st = fold forEach_callback fs st"

subsection \<open>Runs\<close>

text \<open>The children spawned so far, in order.\<close>

fun spawns :: "call list \<Rightarrow> child list" where
  "spawns [] = []"
| "spawns (Spawn i # cs) = i # spawns cs"
| "spawns (c # cs) = spawns cs"

definition spawned :: "state \<Rightarrow> child list" where
  "spawned st = spawns (calls st)"

text \<open>What was called, and which children were spawned, between two states.\<close>

definition new_calls :: "state \<Rightarrow> state \<Rightarrow> call list" where
  "new_calls st st' = drop (length (calls st)) (calls st')"

definition new_instances :: "state \<Rightarrow> state \<Rightarrow> child list" where
  "new_instances st st' = drop (length (spawned st)) (spawned st')"

text \<open>
  Node.js runs a listener only after the code that is running has returned, so every
  \<open>close\<close> event comes after the task body. A cycle is one run of the task followed by
  the \<open>close\<close> event, with exit code \<open>code\<close>, of every child that run spawned.
\<close>

definition cycle :: "file_group list \<Rightarrow> int option \<Rightarrow> state \<Rightarrow> state" where
  "cycle fs code st =
     (let st' = haproxy_task fs st
      in fold (\<lambda>i. close_listener i code) (new_instances st st') st')"

text \<open>
  What the task's code does not do itself: the daemon it spawned comes up. It runs as
  the process whose id is the text \<open>c\<close>, a signal can be delivered to it, and it has
  written \<open>c\<close> into the PID file \<open>d\<close> it was given with \<open>-p\<close>.
\<close>

definition daemon_up :: "path \<Rightarrow> string \<Rightarrow> state \<Rightarrow> state" where
  "daemon_up d c st = st\<lparr>files := (files st)(d \<mapsto> c), kill_error := (kill_error st)(c := None)\<rparr>"


text \<open>The child the \<open>filter\<close> callback spawns for the entry \<open>filepath\<close>.\<close>

definition launched :: "nat \<Rightarrow> file_group \<Rightarrow> path \<Rightarrow> state \<Rightarrow> child" where
  "launched g f filepath st =
     \<lparr>cfg = path_resolve (plugin_root st) filepath, pidfile = dest0 f, fdest = dest f, cell = g\<rparr>"

text \<open>
  A state to start from: no file, no process (every signal finds no process), nothing
  that refuses to be read or deleted, the plugin installed in \<open>/srv/grunt-haproxy\<close>,
  nothing run yet.
\<close>

definition boot :: state where
  "boot =
     \<lparr>files = (\<lambda>p. None), read_error = (\<lambda>p. None), kill_error = (\<lambda>pid. Some ESRCH),
      unlink_error = (\<lambda>p. None), plugin_root = ''/srv/grunt-haproxy'', next_cell = 0,
      restart = (\<lambda>g. False), calls = [], queue = [], done_calls = 0, console = []\<rparr>"

text \<open>The children among \<open>cs\<close> that were given the PID file \<open>d\<close>.\<close>

definition bound_to :: "path \<Rightarrow> child list \<Rightarrow> child list" where
  "bound_to d cs = filter (\<lambda>i. pidfile i = Some d) cs"

subsection \<open>Inputs used in the examples\<close>

text \<open>One target: one configuration file, one PID file.\<close>

definition proxy_a :: file_group where
  "proxy_a = \<lparr>src = [''/etc/proxy/a.cfg''], dest = [''/run/proxy-a.pid'']\<rparr>"

text \<open>Two configuration files mapped to one PID file.\<close>

definition proxy_ab :: file_group where
  "proxy_ab = \<lparr>src = [''/etc/proxy/a.cfg'', ''/etc/proxy/b.cfg''], dest = [''/run/proxy-a.pid'']\<rparr>"

text \<open>A group without any \<open>src\<close> entry.\<close>

definition proxy_none :: file_group where
  "proxy_none = \<lparr>src = [], dest = [''/run/proxy-a.pid'']\<rparr>"

text \<open>The PID file names process 4242, which does not run.\<close>

definition stale_pid :: state where
  "stale_pid = boot\<lparr>files := (files boot)(''/run/proxy-a.pid'' \<mapsto> ''4242'')\<rparr>"

text \<open>The PID file names process 1, which runs and which the task may not signal.\<close>

definition foreign_pid :: state where
  "foreign_pid =
     boot\<lparr>files := (files boot)(''/run/proxy-a.pid'' \<mapsto> ''1''),
          kill_error := (kill_error boot)(''1'' \<mapsto> EPERM)\<rparr>"

text \<open>The PID file names process 4242, which runs and takes the task's signal.\<close>

definition live_pid :: state where
  "live_pid =
     boot\<lparr>files := (files boot)(''/run/proxy-a.pid'' \<mapsto> ''4242''),
          kill_error := (kill_error boot)(''4242'' := None)\<rparr>"

text \<open>The PID file holds \<open>-4242\<close>, which is no positive integer; \<open>process.kill\<close> takes
  it for the process group 4242, which is there and takes the signal.\<close>

definition group_pid :: state where
  "group_pid =
     boot\<lparr>files := (files boot)(''/run/proxy-a.pid'' \<mapsto> ''-4242''),
          kill_error := (kill_error boot)(''-4242'' := None)\<rparr>"

text \<open>No PID file, and nothing can be deleted (the directory of the PID file is not the
  task's to write).\<close>

definition locked_dir :: state where
  "locked_dir = boot\<lparr>unlink_error := (\<lambda>p. Some EACCES)\<rparr>"

text \<open>The PID file holds \<open>abc\<close>, which \<open>process.kill\<close> rejects as a process id.\<close>

definition corrupt_pid :: state where
  "corrupt_pid =
     boot\<lparr>files := (files boot)(''/run/proxy-a.pid'' \<mapsto> ''abc''),
          kill_error := (kill_error boot)(''abc'' \<mapsto> ERR_INVALID_ARG)\<rparr>"



section \<open>Basic facts\<close>

lemma spawns_append: "spawns (xs @ ys) = spawns xs @ spawns ys"
  by (induction xs rule: spawns.induct) simp_all

subsection \<open>One run of the \<open>filter\<close> callback\<close>

lemmas env_defs = record_call_def existsSync_def readFileSync_def process_kill_def
  unlinkSync_def spawn_def try_block_def filter_callback_def launched_def

lemma filter_callback_absent:
  "dest0 f = None \<or> (\<exists>d. dest0 f = Some d \<and> files st d = None) \<Longrightarrow>
   filter_callback g f p st =
     st\<lparr>calls := calls st @ [ExistsSync (dest0 f), Spawn (launched g f p st)]\<rparr>"
  by (auto simp: env_defs Let_def)

lemma filter_callback_read_throws:
  "dest0 f = Some d \<Longrightarrow> files st d = Some c \<Longrightarrow> read_error st d = Some e \<Longrightarrow>
   filter_callback g f p st =
     st\<lparr>calls := calls st @ [ExistsSync (Some d), ReadFileSync (Some d), Spawn (launched g f p st)]\<rparr>"
  by (simp add: env_defs Let_def)

lemma filter_callback_kill_throws:
  "dest0 f = Some d \<Longrightarrow> files st d = Some c \<Longrightarrow> read_error st d = None \<Longrightarrow>
   kill_error st c = Some e \<Longrightarrow>
   filter_callback g f p st =
     st\<lparr>calls := calls st @
       [ExistsSync (Some d), ReadFileSync (Some d), Kill c, Spawn (launched g f p st)]\<rparr>"
  by (simp add: env_defs Let_def)

lemma filter_callback_unlink_throws:
  "dest0 f = Some d \<Longrightarrow> files st d = Some c \<Longrightarrow> read_error st d = None \<Longrightarrow>
   kill_error st c = None \<Longrightarrow> unlink_error st d = Some e \<Longrightarrow>
   filter_callback g f p st =
     st\<lparr>calls := calls st @
       [ExistsSync (Some d), ReadFileSync (Some d), Kill c, UnlinkSync (Some d),
        Spawn (launched g f p st)]\<rparr>"
  by (simp add: env_defs Let_def)

lemma filter_callback_terminated:
  "dest0 f = Some d \<Longrightarrow> files st d = Some c \<Longrightarrow> read_error st d = None \<Longrightarrow>
   kill_error st c = None \<Longrightarrow> unlink_error st d = None \<Longrightarrow>
   filter_callback g f p st =
     st\<lparr>files := (files st)(d := None),
        restart := (restart st)(g := True),
        calls := calls st @
       [ExistsSync (Some d), ReadFileSync (Some d), Kill c, UnlinkSync (Some d),
        Spawn (launched g f p st)]\<rparr>"
  by (simp add: env_defs Let_def)

lemma filter_callback_frame:
  "plugin_root (filter_callback g f p st) = plugin_root st"
  "next_cell (filter_callback g f p st) = next_cell st"
  "queue (filter_callback g f p st) = queue st"
  "console (filter_callback g f p st) = console st"
  "done_calls (filter_callback g f p st) = done_calls st"
  "read_error (filter_callback g f p st) = read_error st"
  "kill_error (filter_callback g f p st) = kill_error st"
  "unlink_error (filter_callback g f p st) = unlink_error st"
  by (simp_all add: env_defs Let_def split: option.splits)

lemma spawned_filter_callback:
  "spawned (filter_callback g f p st) = spawned st @ [launched g f p st]"
  by (simp add: spawned_def env_defs Let_def spawns_append split: option.splits)

lemma restart_filter_callback_mono:
  "restart st h \<Longrightarrow> restart (filter_callback g f p st) h"
  by (simp add: env_defs Let_def split: option.splits)


lemma calls_filter_callback:
  "\<exists>pre. calls (filter_callback g f p st) = calls st @ pre @ [Spawn (launched g f p st)] \<and>
     (pre = [ExistsSync (dest0 f)] \<or>
      pre = [ExistsSync (dest0 f), ReadFileSync (dest0 f)] \<or>
      (\<exists>c. pre = [ExistsSync (dest0 f), ReadFileSync (dest0 f), Kill c]) \<or>
      (\<exists>c. pre = [ExistsSync (dest0 f), ReadFileSync (dest0 f), Kill c, UnlinkSync (dest0 f)]))"
  by (simp add: env_defs Let_def split: option.splits)

subsection \<open>A whole group\<close>

lemma launched_filter_callback:
  "launched h f' q (filter_callback g f p st) = launched h f' q st"
  by (simp add: launched_def filter_callback_frame)

lemma fold_filter_frame:
  "plugin_root (fold (filter_callback g f) ps st) = plugin_root st"
  "next_cell (fold (filter_callback g f) ps st) = next_cell st"
  "queue (fold (filter_callback g f) ps st) = queue st"
  "console (fold (filter_callback g f) ps st) = console st"
  "done_calls (fold (filter_callback g f) ps st) = done_calls st"
  "read_error (fold (filter_callback g f) ps st) = read_error st"
  "unlink_error (fold (filter_callback g f) ps st) = unlink_error st"
  by (induction ps arbitrary: st; simp add: filter_callback_frame)+

lemma fold_filter_spawned:
  "spawned (fold (filter_callback g f) ps st) = spawned st @ map (\<lambda>p. launched g f p st) ps"
  by (induction ps arbitrary: st)
     (simp_all add: spawned_filter_callback launched_filter_callback)

lemma fold_filter_restart_mono:
  "restart st h \<Longrightarrow> restart (fold (filter_callback g f) ps st) h"
  by (induction ps arbitrary: st) (simp_all add: restart_filter_callback_mono)


lemma forEach_callback_frame:
  "plugin_root (forEach_callback f st) = plugin_root st"
  "next_cell (forEach_callback f st) = Suc (next_cell st)"
  "queue (forEach_callback f st) = queue st"
  "console (forEach_callback f st) = console st"
  "done_calls (forEach_callback f st) = done_calls st"
  "read_error (forEach_callback f st) = read_error st"
  "unlink_error (forEach_callback f st) = unlink_error st"
  by (simp_all add: forEach_callback_def Let_def fold_filter_frame)

lemma spawned_forEach_callback:
  "spawned (forEach_callback f st) =
     spawned st @ map (\<lambda>p. launched (next_cell st) f p st) (src f)"
proof -
  let ?st0 = "st\<lparr>next_cell := Suc (next_cell st), restart := (restart st)(next_cell st := False)\<rparr>"
  have "spawned ?st0 = spawned st"
    by (simp add: spawned_def)
  moreover have "launched (next_cell st) f p ?st0 = launched (next_cell st) f p st" for p
    by (simp add: launched_def)
  ultimately show ?thesis
    by (simp add: forEach_callback_def Let_def fold_filter_spawned)
qed

lemma new_instances_forEach_callback:
  "new_instances st (forEach_callback f st) = map (\<lambda>p. launched (next_cell st) f p st) (src f)"
  by (simp add: new_instances_def spawned_forEach_callback)


lemma forEach_callback_single:
  "src f = [p] \<Longrightarrow>
   forEach_callback f st =
     filter_callback (next_cell st) f p
       (st\<lparr>next_cell := Suc (next_cell st), restart := (restart st)(next_cell st := False)\<rparr>)"
  by (simp add: forEach_callback_def Let_def)

lemma haproxy_task_frame:
  "plugin_root (haproxy_task fs st) = plugin_root st"
  "queue (haproxy_task fs st) = queue st"
  "console (haproxy_task fs st) = console st"
  "done_calls (haproxy_task fs st) = done_calls st"
  by (induction fs arbitrary: st; simp add: haproxy_task_def forEach_callback_frame)+

subsection \<open>The \<open>close\<close> listener\<close>

lemmas close_defs = close_listener_def console_log_def task_run_def done_async_def

lemma close_listener_queue:
  "queue (close_listener i code st) =
     queue st @ [if restart st (cell i) then ''notify:haproxyReloaded'' else ''notify:haproxyStarted'']"
  by (simp add: close_defs Let_def)

lemma close_listener_console:
  "console (close_listener i code st) =
     console st @ LogStarted i code # (if code \<noteq> Some 0 then [LogExited code] else [])"
  by (simp add: close_defs Let_def)

lemma close_listener_frame:
  "files (close_listener i code st) = files st"
  "read_error (close_listener i code st) = read_error st"
  "kill_error (close_listener i code st) = kill_error st"
  "unlink_error (close_listener i code st) = unlink_error st"
  "plugin_root (close_listener i code st) = plugin_root st"
  "next_cell (close_listener i code st) = next_cell st"
  "restart (close_listener i code st) = restart st"
  "calls (close_listener i code st) = calls st"
  "done_calls (close_listener i code st) = Suc (done_calls st)"
  by (simp_all add: close_defs Let_def)

lemma fold_close_frame:
  "files (fold (\<lambda>i. close_listener i code) is st) = files st"
  "read_error (fold (\<lambda>i. close_listener i code) is st) = read_error st"
  "kill_error (fold (\<lambda>i. close_listener i code) is st) = kill_error st"
  "unlink_error (fold (\<lambda>i. close_listener i code) is st) = unlink_error st"
  "plugin_root (fold (\<lambda>i. close_listener i code) is st) = plugin_root st"
  "next_cell (fold (\<lambda>i. close_listener i code) is st) = next_cell st"
  "restart (fold (\<lambda>i. close_listener i code) is st) = restart st"
  "calls (fold (\<lambda>i. close_listener i code) is st) = calls st"
  by (induction "is" arbitrary: st; simp add: close_listener_frame)+

lemma fold_close_queue:
  "queue (fold (\<lambda>i. close_listener i code) is st) =
     queue st @ map (\<lambda>i. if restart st (cell i) then ''notify:haproxyReloaded''
                          else ''notify:haproxyStarted'') is"
  by (induction "is" arbitrary: st) (simp_all add: close_listener_queue close_listener_frame)

lemma cycle_queue:
  "queue (cycle fs code st) =
     queue st @ map (\<lambda>i. if restart (haproxy_task fs st) (cell i) then ''notify:haproxyReloaded''
                          else ''notify:haproxyStarted'')
                    (new_instances st (haproxy_task fs st))"
  by (simp add: cycle_def Let_def fold_close_queue haproxy_task_frame)

lemma cycle_frame:
  "files (cycle fs code st) = files (haproxy_task fs st)"
  "read_error (cycle fs code st) = read_error (haproxy_task fs st)"
  "kill_error (cycle fs code st) = kill_error (haproxy_task fs st)"
  "unlink_error (cycle fs code st) = unlink_error (haproxy_task fs st)"
  "plugin_root (cycle fs code st) = plugin_root st"
  "next_cell (cycle fs code st) = next_cell (haproxy_task fs st)"
  "restart (cycle fs code st) = restart (haproxy_task fs st)"
  "calls (cycle fs code st) = calls (haproxy_task fs st)"
  by (simp_all add: cycle_def Let_def fold_close_frame haproxy_task_frame)

lemma haproxy_task_single: "haproxy_task [f] st = forEach_callback f st"
  by (simp add: haproxy_task_def)

subsection \<open>Later states\<close>


subsection \<open>A cycle\<close>

lemmas run_defs = cycle_def haproxy_task_def forEach_callback_def env_defs close_defs
  new_instances_def new_calls_def spawned_def boot_def dest0_def path_resolve_def Let_def
  proxy_a_def proxy_ab_def proxy_none_def daemon_up_def bound_to_def
  stale_pid_def foreign_pid_def corrupt_pid_def live_pid_def group_pid_def locked_dir_def

lemma spawned_cycle: "spawned (cycle fs code st) = spawned (haproxy_task fs st)"
  by (simp add: spawned_def cycle_frame)

lemma new_instances_cycle:
  "new_instances st (cycle fs code st) = new_instances st (haproxy_task fs st)"
  by (simp add: new_instances_def spawned_cycle)

lemma new_calls_append:
  "calls st' = calls st @ xs \<Longrightarrow> new_calls st st' = xs"
  by (simp add: new_calls_def)

lemma new_instances_filter_callback:
  "new_instances st (filter_callback g f p st) = [launched g f p st]"
  by (simp add: new_instances_def spawned_filter_callback)

lemma haproxy_task_one_entry:
  assumes "src f = [p]"
  shows "haproxy_task [f] st =
    filter_callback (next_cell st) f p
      (st\<lparr>next_cell := Suc (next_cell st), restart := (restart st)(next_cell st := False)\<rparr>)"
  by (simp add: haproxy_task_single forEach_callback_single [OF assms])

lemma new_instances_one_entry:
  "src f = [p] \<Longrightarrow> new_instances st (haproxy_task [f] st) = [launched (next_cell st) f p st]"
  by (simp add: haproxy_task_single new_instances_forEach_callback)

text \<open>The task for one target that has no PID file: the check, then the spawn.\<close>

lemma haproxy_task_no_pid_file:
  assumes "src f = [p]" and "dest0 f = Some d" and "files st d = None"
  shows "haproxy_task [f] st =
    st\<lparr>next_cell := Suc (next_cell st), restart := (restart st)(next_cell st := False),
       calls := calls st @ [ExistsSync (Some d), Spawn (launched (next_cell st) f p st)]\<rparr>"
proof -
  let ?init = "st\<lparr>next_cell := Suc (next_cell st), restart := (restart st)(next_cell st := False)\<rparr>"
  have "dest0 f = None \<or> (\<exists>d. dest0 f = Some d \<and> files ?init d = None)"
    using assms(2,3) by simp
  then have "filter_callback (next_cell st) f p ?init =
      ?init\<lparr>calls := calls ?init @ [ExistsSync (dest0 f), Spawn (launched (next_cell st) f p ?init)]\<rparr>"
    by (rule filter_callback_absent)
  then show ?thesis
    using assms(1,2) by (simp add: haproxy_task_one_entry launched_def)
qed

text \<open>The task for one target whose PID file names something \<open>process.kill\<close> throws on:
  the check, the read, the signal, then the spawn, and nothing else.\<close>

lemma haproxy_task_kill_throws:
  assumes "src f = [p]" and "dest0 f = Some d" and "files st d = Some c"
    and "read_error st d = None" and "kill_error st c = Some e"
  shows "haproxy_task [f] st =
    st\<lparr>next_cell := Suc (next_cell st), restart := (restart st)(next_cell st := False),
       calls := calls st @
         [ExistsSync (Some d), ReadFileSync (Some d), Kill c, Spawn (launched (next_cell st) f p st)]\<rparr>"
  using assms by (simp add: haproxy_task_one_entry filter_callback_kill_throws launched_def)

text \<open>The task for one target whose PID file names a process that takes the signal, the
  file being deleted after: \<open>_restart\<close> is set.\<close>

lemma haproxy_task_terminated:
  assumes "src f = [p]" and "dest0 f = Some d" and "files st d = Some c"
    and "read_error st d = None" and "kill_error st c = None" and "unlink_error st d = None"
  shows "restart (haproxy_task [f] st) (next_cell st)"
  using assms by (simp add: haproxy_task_one_entry filter_callback_terminated)

lemma cycle_console:
  "console (cycle fs code st) =
     console st @
     concat (map (\<lambda>i. LogStarted i code # (if code \<noteq> Some 0 then [LogExited code] else []))
       (new_instances st (haproxy_task fs st)))"
proof -
  have "console (fold (\<lambda>i. close_listener i code) is s) =
      console s @
      concat (map (\<lambda>i. LogStarted i code # (if code \<noteq> Some 0 then [LogExited code] else [])) is)"
    for "is" s
    by (induction "is" arbitrary: s) (simp_all add: close_listener_console)
  then show ?thesis
    by (simp add: cycle_def Let_def haproxy_task_frame)
qed

lemma cycle_started:
  assumes "src f = [p]" and "\<not> restart (haproxy_task [f] st) (next_cell st)"
  shows "queue (cycle [f] code st) = queue st @ [''notify:haproxyStarted'']"
  using assms by (simp add: cycle_queue new_instances_one_entry launched_def)

lemma cycle_reloaded:
  assumes "src f = [p]" and "restart (haproxy_task [f] st) (next_cell st)"
  shows "queue (cycle [f] code st) = queue st @ [''notify:haproxyReloaded'']"
  using assms by (simp add: cycle_queue new_instances_one_entry launched_def)

text \<open>
  The task never writes the PID file. When the daemon of the first cycle has written none
  (it never came up), the second cycle finds none and reports a start again.
\<close>

lemma started_again_when_no_pid_file_was_written:
  assumes "src f = [p]" and "dest0 f = Some d" and "files st d = None"
  shows "queue (cycle [f] code' (cycle [f] code st)) =
      queue st @ [''notify:haproxyStarted'', ''notify:haproxyStarted'']"
proof -
  have started: "queue (cycle [f] k s) = queue s @ [''notify:haproxyStarted'']"
    if "files s d = None" for s k
    by (rule cycle_started [OF assms(1)]) (simp add: haproxy_task_no_pid_file [OF assms(1,2) that])
  have "files (cycle [f] code st) d = None"
    by (simp add: cycle_frame haproxy_task_no_pid_file [OF assms] assms(3))
  then show ?thesis
    by (simp add: started assms(3))
qed

section \<open>The claims\<close>

subsection \<open>C1: processes per PID file\<close>

text \<open>
  Claim C1 says that one cycle never leaves more than one process it spawned bound to the
  same PID-file destination. It fails for the group \<open>proxy_ab\<close>, two configuration files
  mapped to \<open>/run/proxy-a.pid\<close>, started where no PID file exists: the task checks for
  the PID file and spawns, checks again and spawns again. No signal is sent in between,
  and both children were given \<open>/run/proxy-a.pid\<close>.
\<close>

theorem C1_counterexample:
  "new_calls boot (haproxy_task [proxy_ab] boot) =
     [ExistsSync (Some ''/run/proxy-a.pid''),
      Spawn \<lparr>cfg = ''/etc/proxy/a.cfg'', pidfile = Some ''/run/proxy-a.pid'',
             fdest = [''/run/proxy-a.pid''], cell = 0\<rparr>,
      ExistsSync (Some ''/run/proxy-a.pid''),
      Spawn \<lparr>cfg = ''/etc/proxy/b.cfg'', pidfile = Some ''/run/proxy-a.pid'',
             fdest = [''/run/proxy-a.pid''], cell = 0\<rparr>] \<and>
   \<not> length (bound_to ''/run/proxy-a.pid'' (new_instances boot (haproxy_task [proxy_ab] boot))) \<le> 1"
  by (simp add: run_defs)

text \<open>
  Claim C1, as the code has it: for a file group whose PID file is \<open>d\<close>, the number of
  processes one run spawns bound to \<open>d\<close> is the number of the group's \<open>src\<close> entries. So
  it is at most one exactly for a group with at most one entry.
\<close>

theorem C1_one_spawn_per_src_entry:
  "dest0 f = Some d \<Longrightarrow>
   length (bound_to d (new_instances st (forEach_callback f st))) = length (src f)"
  by (simp add: new_instances_forEach_callback bound_to_def launched_def)

text \<open>For the single target \<open>proxy_a\<close>: one process.\<close>

theorem C1_one_spawn_per_src_entry_witness:
  "length (bound_to ''/run/proxy-a.pid'' (new_instances boot (forEach_callback proxy_a boot))) = 1"
  using C1_one_spawn_per_src_entry [of proxy_a "''/run/proxy-a.pid''" boot]
  by (simp add: proxy_a_def dest0_def)

subsection \<open>C2: a configuration file that does not exist\<close>

text \<open>
  Claim C2 says that a cycle whose \<open>configPath\<close> does not exist fails with \<open>failed\<close> and
  spawns nothing. In \<open>boot\<close> there is no file at all, so \<open>/etc/proxy/a.cfg\<close> does not
  exist; the cycle for \<open>proxy_a\<close> spawns \<open>haproxy\<close> on it all the same, and when the child
  closes with exit code 1 the task queued is \<open>notify:haproxyStarted\<close>. (An entry of
  \<open>f.src\<close> need not name a file: Grunt keeps an entry that matches nothing when the group
  sets \<open>nonull\<close>, and the callback resolves a relative entry against the plugin's
  directory, not against the directory Grunt matched it in.)
\<close>

theorem C2_counterexample:
  "files boot ''/etc/proxy/a.cfg'' = None \<and>
   new_instances boot (cycle [proxy_a] (Some 1) boot) =
     [\<lparr>cfg = ''/etc/proxy/a.cfg'', pidfile = Some ''/run/proxy-a.pid'',
       fdest = [''/run/proxy-a.pid''], cell = 0\<rparr>] \<and>
   queue (cycle [proxy_a] (Some 1) boot) = [''notify:haproxyStarted'']"
  by (simp add: run_defs)

text \<open>
  Claim C2, as the code has it: for a target whose \<open>configPath\<close> does not exist, the cycle
  spawns one process with that path as its configuration all the same (the callback never
  looks at the path), and what it reports when the child closes is \<open>started\<close> or
  \<open>reloaded\<close>, never \<open>failed\<close>.
\<close>

theorem C2_spawn_without_config_check:
  assumes "src f = [p]" and "files st (path_resolve (plugin_root st) p) = None"
  shows "new_instances st (cycle [f] code st) = [launched (next_cell st) f p st] \<and>
    (queue (cycle [f] code st) = queue st @ [''notify:haproxyStarted''] \<or>
     queue (cycle [f] code st) = queue st @ [''notify:haproxyReloaded''])"
  using assms(1)
  by (simp add: new_instances_cycle cycle_queue new_instances_one_entry)

theorem C2_spawn_without_config_check_witness:
  "files boot (path_resolve (plugin_root boot) ''/etc/proxy/a.cfg'') = None \<and>
   new_instances boot (cycle [proxy_a] (Some 1) boot) =
     [launched 0 proxy_a ''/etc/proxy/a.cfg'' boot] \<and>
   (queue (cycle [proxy_a] (Some 1) boot) = [''notify:haproxyStarted''] \<or>
    queue (cycle [proxy_a] (Some 1) boot) = [''notify:haproxyReloaded''])"
  using C2_spawn_without_config_check [of proxy_a "''/etc/proxy/a.cfg''" boot "Some 1"]
  by (simp add: proxy_a_def boot_def path_resolve_def)

subsection \<open>C3: the PID file names a process that does not run\<close>

text \<open>
  Claim C3 says that when the PID file names a process that does not run, the PID file is
  still deleted and the flag is still set. In \<open>stale_pid\<close> the PID file names process
  4242 and the signal finds no process (\<open>ESRCH\<close>). After the cycle for \<open>proxy_a\<close> the PID
  file is still there with its content, \<open>_restart\<close> (cell 0) is not set, and the report is
  \<open>notify:haproxyStarted\<close>.
\<close>

theorem C3_counterexample:
  "kill_error stale_pid ''4242'' = Some ESRCH \<and>
   files (cycle [proxy_a] (Some 0) stale_pid) ''/run/proxy-a.pid'' = Some ''4242'' \<and>
   \<not> restart (cycle [proxy_a] (Some 0) stale_pid) 0 \<and>
   queue (cycle [proxy_a] (Some 0) stale_pid) = [''notify:haproxyStarted'']"
  by (simp add: run_defs)

text \<open>
  Claim C3, as the code has it: when the PID file names a process that does not run, the
  failed signal is not an error (what \<open>process.kill\<close> throws is caught and dropped) and
  the callback goes on to spawn; the deletion and the assignment to \<open>_restart\<close> are
  skipped with the rest of the \<open>try\<close> block, so the file system and the flags are as
  before.
\<close>

theorem C3_dead_pid_is_swallowed:
  assumes "dest0 f = Some d" and "files st d = Some c" and "read_error st d = None"
    and "kill_error st c = Some ESRCH"
  shows "files (filter_callback g f p st) = files st \<and>
    restart (filter_callback g f p st) = restart st \<and>
    new_calls st (filter_callback g f p st) =
      [ExistsSync (Some d), ReadFileSync (Some d), Kill c, Spawn (launched g f p st)]"
  by (simp add: filter_callback_kill_throws [OF assms] new_calls_def)

theorem C3_dead_pid_is_swallowed_witness:
  "files (filter_callback 0 proxy_a ''/etc/proxy/a.cfg'' stale_pid) = files stale_pid \<and>
   restart (filter_callback 0 proxy_a ''/etc/proxy/a.cfg'' stale_pid) = restart stale_pid \<and>
   new_calls stale_pid (filter_callback 0 proxy_a ''/etc/proxy/a.cfg'' stale_pid) =
     [ExistsSync (Some ''/run/proxy-a.pid''), ReadFileSync (Some ''/run/proxy-a.pid''),
      Kill ''4242'', Spawn (launched 0 proxy_a ''/etc/proxy/a.cfg'' stale_pid)]"
  using C3_dead_pid_is_swallowed [of proxy_a "''/run/proxy-a.pid''" stale_pid "''4242''" 0
    "''/etc/proxy/a.cfg''"]
  by (simp add: proxy_a_def dest0_def stale_pid_def boot_def)

subsection \<open>C4: the signal is refused\<close>

text \<open>
  Claim C4 says that when the signal fails for another reason than an absent process, the
  cycle aborts with \<open>failed\<close>, the cause is surfaced and no replacement is spawned. In
  \<open>foreign_pid\<close> the PID file names process 1 and the signal is refused (\<open>EPERM\<close>). The
  cycle for \<open>proxy_a\<close> spawns the replacement, reports \<open>notify:haproxyStarted\<close>, and the
  console holds the listener's line only.
\<close>

theorem C4_counterexample:
  "kill_error foreign_pid ''1'' = Some EPERM \<and>
   new_instances foreign_pid (cycle [proxy_a] (Some 0) foreign_pid) =
     [\<lparr>cfg = ''/etc/proxy/a.cfg'', pidfile = Some ''/run/proxy-a.pid'',
       fdest = [''/run/proxy-a.pid''], cell = 0\<rparr>] \<and>
   queue (cycle [proxy_a] (Some 0) foreign_pid) = [''notify:haproxyStarted''] \<and>
   console (cycle [proxy_a] (Some 0) foreign_pid) =
     [LogStarted \<lparr>cfg = ''/etc/proxy/a.cfg'', pidfile = Some ''/run/proxy-a.pid'',
                  fdest = [''/run/proxy-a.pid''], cell = 0\<rparr> (Some 0)]"
  by (simp add: run_defs)

text \<open>
  Claim C4, as the code has it: when the signal fails for another reason than an absent
  process, the stale PID file is left untouched, but the cycle does not abort: the error
  is caught and dropped, the replacement is spawned, the report at its close is
  \<open>started\<close>, and the console gets the listener's lines and nothing about the cause.
\<close>

theorem C4_signal_error_is_swallowed:
  assumes "src f = [p]" and "dest0 f = Some d" and "files st d = Some c"
    and "read_error st d = None" and "kill_error st c = Some e" and "e \<noteq> ESRCH"
  shows "files (cycle [f] code st) = files st \<and>
    new_instances st (cycle [f] code st) = [launched (next_cell st) f p st] \<and>
    queue (cycle [f] code st) = queue st @ [''notify:haproxyStarted''] \<and>
    console (cycle [f] code st) =
      console st @ LogStarted (launched (next_cell st) f p st) code #
        (if code \<noteq> Some 0 then [LogExited code] else [])"
proof -
  note task = haproxy_task_kill_throws [OF assms(1-5)]
  have "files (cycle [f] code st) = files st"
    by (simp add: cycle_frame task)
  moreover have "new_instances st (cycle [f] code st) = [launched (next_cell st) f p st]"
    by (simp add: new_instances_cycle new_instances_one_entry [OF assms(1)])
  moreover have "queue (cycle [f] code st) = queue st @ [''notify:haproxyStarted'']"
    by (rule cycle_started [OF assms(1)]) (simp add: task)
  moreover have "console (cycle [f] code st) =
      console st @ LogStarted (launched (next_cell st) f p st) code #
        (if code \<noteq> Some 0 then [LogExited code] else [])"
    by (simp add: cycle_console new_instances_one_entry [OF assms(1)])
  ultimately show ?thesis by blast
qed

theorem C4_signal_error_is_swallowed_witness:
  "kill_error foreign_pid ''1'' = Some EPERM \<and>
   files (cycle [proxy_a] (Some 0) foreign_pid) = files foreign_pid \<and>
   new_instances foreign_pid (cycle [proxy_a] (Some 0) foreign_pid) =
     [launched 0 proxy_a ''/etc/proxy/a.cfg'' foreign_pid] \<and>
   queue (cycle [proxy_a] (Some 0) foreign_pid) = [''notify:haproxyStarted''] \<and>
   console (cycle [proxy_a] (Some 0) foreign_pid) =
     [LogStarted (launched 0 proxy_a ''/etc/proxy/a.cfg'' foreign_pid) (Some 0)]"
  using C4_signal_error_is_swallowed [of proxy_a "''/etc/proxy/a.cfg''" "''/run/proxy-a.pid''"
    foreign_pid "''1''" EPERM "Some 0"]
  by (simp add: proxy_a_def dest0_def foreign_pid_def boot_def)

subsection \<open>C5: notifications\<close>

text \<open>
  Claim C5 says that a nonzero exit code is reported as a failure notification and that no
  cycle ends in silence. For \<open>proxy_a\<close> started in \<open>boot\<close>, the child closing with exit
  code 1: the only task queued is \<open>notify:haproxyStarted\<close>, and the exit code goes to the
  console. For the group \<open>proxy_none\<close>, which has no \<open>src\<close> entry (what Grunt makes of
  a pattern that matches no file): nothing is spawned, so no \<open>close\<close> event can come,
  and nothing is queued.
\<close>

theorem C5_counterexample:
  "queue (cycle [proxy_a] (Some 1) boot) = [''notify:haproxyStarted''] \<and>
   console (cycle [proxy_a] (Some 1) boot) =
     [LogStarted \<lparr>cfg = ''/etc/proxy/a.cfg'', pidfile = Some ''/run/proxy-a.pid'',
                  fdest = [''/run/proxy-a.pid''], cell = 0\<rparr> (Some 1),
      LogExited (Some 1)] \<and>
   new_instances boot (cycle [proxy_none] (Some 0) boot) = [] \<and>
   queue (cycle [proxy_none] (Some 0) boot) = []"
  by (simp add: run_defs)

text \<open>
  Claim C5, as the code has it: every \<open>close\<close> event of a spawned child produces exactly
  one notification, \<open>started\<close> or \<open>reloaded\<close> as \<open>_restart\<close> says, whatever the exit code; an
  exit code other than 0 adds a line on the console and no notification. The task body
  queues nothing itself, so a cycle produces as many notifications as children it spawned
  have closed.
\<close>

theorem C5_one_notification_per_close:
  "queue (close_listener i code st) =
     queue st @ [if restart st (cell i) then ''notify:haproxyReloaded'' else ''notify:haproxyStarted''] \<and>
   console (close_listener i code st) =
     console st @ LogStarted i code # (if code \<noteq> Some 0 then [LogExited code] else []) \<and>
   queue (haproxy_task fs st) = queue st \<and>
   length (queue (cycle fs code st)) =
     length (queue st) + length (new_instances st (haproxy_task fs st))"
  by (simp add: close_listener_queue close_listener_console haproxy_task_frame cycle_queue)

subsection \<open>C6: a PID file that holds no process id\<close>

text \<open>
  Claim C6 says that a PID file whose content is not parsable as a positive integer is
  treated as an absent one. The task has no parser of its own: the content goes to
  \<open>process.kill\<close> as it was read. In \<open>group_pid\<close> the PID file holds \<open>-4242\<close>, no positive
  integer, which \<open>process.kill\<close> takes for a process group; the signal is sent, the PID
  file is deleted, \<open>_restart\<close> (cell 0) is set and the close is reported as
  \<open>notify:haproxyReloaded\<close>. With no PID file (\<open>boot\<close>) the report is
  \<open>notify:haproxyStarted\<close>.
\<close>

theorem C6_counterexample:
  "files group_pid ''/run/proxy-a.pid'' = Some ''-4242'' \<and>
   new_calls group_pid (haproxy_task [proxy_a] group_pid) =
     [ExistsSync (Some ''/run/proxy-a.pid''), ReadFileSync (Some ''/run/proxy-a.pid''),
      Kill ''-4242'', UnlinkSync (Some ''/run/proxy-a.pid''),
      Spawn \<lparr>cfg = ''/etc/proxy/a.cfg'', pidfile = Some ''/run/proxy-a.pid'',
             fdest = [''/run/proxy-a.pid''], cell = 0\<rparr>] \<and>
   files (cycle [proxy_a] (Some 0) group_pid) ''/run/proxy-a.pid'' = None \<and>
   restart (cycle [proxy_a] (Some 0) group_pid) 0 \<and>
   queue (cycle [proxy_a] (Some 0) group_pid) = [''notify:haproxyReloaded''] \<and>
   queue (cycle [proxy_a] (Some 0) boot) = [''notify:haproxyStarted'']"
  by (simp add: run_defs)

text \<open>
  Claim C6, as the code has it: what decides is not whether the content is a positive
  integer but whether \<open>process.kill\<close> rejects it. For a target whose PID file exists with
  content that \<open>process.kill\<close> rejects by throwing (\<open>ERR_INVALID_ARG\<close>, as for \<open>abc\<close>), the
  cycle goes as it does when the PID file is absent: \<open>_restart\<close> stays unset, the restart
  is not blocked, the same one process is spawned, and its close is reported as
  \<open>started\<close>.
\<close>

theorem C6_rejected_pid_file_as_absent:
  assumes "src f = [p]" and "dest0 f = Some d" and "files st d = Some c"
    and "read_error st d = None" and "kill_error st c = Some ERR_INVALID_ARG"
  shows "\<not> restart (haproxy_task [f] st) (next_cell st) \<and>
    \<not> restart (haproxy_task [f] (st\<lparr>files := (files st)(d := None)\<rparr>)) (next_cell st) \<and>
    new_instances st (haproxy_task [f] st) = [launched (next_cell st) f p st] \<and>
    new_instances (st\<lparr>files := (files st)(d := None)\<rparr>)
        (haproxy_task [f] (st\<lparr>files := (files st)(d := None)\<rparr>)) =
      [launched (next_cell st) f p st] \<and>
    queue (cycle [f] code st) = queue st @ [''notify:haproxyStarted''] \<and>
    queue (cycle [f] code (st\<lparr>files := (files st)(d := None)\<rparr>)) =
      queue st @ [''notify:haproxyStarted'']"
proof -
  let ?absent = "st\<lparr>files := (files st)(d := None)\<rparr>"
  note corrupt = haproxy_task_kill_throws [OF assms]
  have "files ?absent d = None"
    by simp
  note absent = haproxy_task_no_pid_file [OF assms(1,2) this]
  have a: "\<not> restart (haproxy_task [f] st) (next_cell st)"
    by (simp add: corrupt)
  have b: "\<not> restart (haproxy_task [f] ?absent) (next_cell st)"
    by (simp add: absent)
  have "new_instances st (haproxy_task [f] st) = [launched (next_cell st) f p st]"
    by (rule new_instances_one_entry [OF assms(1)])
  moreover have "new_instances ?absent (haproxy_task [f] ?absent) = [launched (next_cell st) f p st]"
    by (simp add: new_instances_one_entry [OF assms(1)] launched_def)
  moreover have "queue (cycle [f] code st) = queue st @ [''notify:haproxyStarted'']"
    by (rule cycle_started [OF assms(1) a])
  moreover have "queue (cycle [f] code ?absent) = queue st @ [''notify:haproxyStarted'']"
    using cycle_started [of f p ?absent code] assms(1) b by simp
  ultimately show ?thesis
    using a b by blast
qed

text \<open>In \<open>corrupt_pid\<close> the PID file holds \<open>abc\<close>.\<close>

theorem C6_rejected_pid_file_as_absent_witness:
  "files corrupt_pid ''/run/proxy-a.pid'' = Some ''abc'' \<and>
   kill_error corrupt_pid ''abc'' = Some ERR_INVALID_ARG \<and>
   \<not> restart (haproxy_task [proxy_a] corrupt_pid) 0 \<and>
   new_instances corrupt_pid (haproxy_task [proxy_a] corrupt_pid) =
     [launched 0 proxy_a ''/etc/proxy/a.cfg'' corrupt_pid] \<and>
   queue (cycle [proxy_a] (Some 0) corrupt_pid) = [''notify:haproxyStarted''] \<and>
   queue (cycle [proxy_a] (Some 0)
       (corrupt_pid\<lparr>files := (files corrupt_pid)(''/run/proxy-a.pid'' := None)\<rparr>)) =
     [''notify:haproxyStarted'']"
proof -
  have h: "src proxy_a = [''/etc/proxy/a.cfg'']" "dest0 proxy_a = Some ''/run/proxy-a.pid''"
    "files corrupt_pid ''/run/proxy-a.pid'' = Some ''abc''"
    "read_error corrupt_pid ''/run/proxy-a.pid'' = None"
    "kill_error corrupt_pid ''abc'' = Some ERR_INVALID_ARG"
    by (simp_all add: proxy_a_def dest0_def corrupt_pid_def boot_def)
  have z: "next_cell corrupt_pid = 0" "queue corrupt_pid = []"
    by (simp_all add: corrupt_pid_def boot_def)
  from C6_rejected_pid_file_as_absent [OF h, of "Some 0"] show ?thesis
    unfolding z using h(3,5) by simp
qed

subsection \<open>C7: two cycles in a row\<close>

text \<open>
  Claim C7 says that two cycles in a row on the same target, begun with no PID file and
  with nothing changed from outside in between, report \<open>started\<close> and then \<open>reloaded\<close>,
  never \<open>started\<close> twice. The task never writes the PID file. In \<open>boot\<close> the first cycle
  for \<open>proxy_a\<close> leaves no PID file, and the second cycle, run right after it, reports
  \<open>started\<close> again. In \<open>locked_dir\<close>, where nothing can be deleted, the daemon of the
  first cycle comes up as process 4242 and writes its PID file; the second cycle sends
  the signal, fails to delete the file, and reports \<open>started\<close> again.
\<close>

theorem C7_counterexample:
  "files boot ''/run/proxy-a.pid'' = None \<and>
   files (cycle [proxy_a] (Some 0) boot) ''/run/proxy-a.pid'' = None \<and>
   queue (cycle [proxy_a] (Some 0) (cycle [proxy_a] (Some 0) boot)) =
     [''notify:haproxyStarted'', ''notify:haproxyStarted''] \<and>
   queue (cycle [proxy_a] (Some 0)
       (daemon_up ''/run/proxy-a.pid'' ''4242'' (cycle [proxy_a] (Some 0) locked_dir))) =
     [''notify:haproxyStarted'', ''notify:haproxyStarted'']"
  by (simp add: run_defs)

text \<open>
  Claim C7, as the code has it: for a target with one configuration file, begun with no
  PID file, the first cycle reports \<open>started\<close>. The second cycle reports \<open>reloaded\<close> when
  the PID file can be read and deleted and, between the cycles, the daemon of the first
  cycle has come up (\<open>daemon_up\<close>: it runs, takes a signal, and has written its PID
  file); the queue then holds \<open>started\<close>, then \<open>reloaded\<close>. When the second cycle follows
  with no PID file written, it reports \<open>started\<close> again.
\<close>

theorem C7_started_then_reloaded:
  assumes "src f = [p]" and "dest0 f = Some d" and "files st d = None"
    and "read_error st d = None" and "unlink_error st d = None"
  shows "queue (cycle [f] code st) = queue st @ [''notify:haproxyStarted''] \<and>
    queue (cycle [f] code' (daemon_up d c (cycle [f] code st))) =
      queue st @ [''notify:haproxyStarted'', ''notify:haproxyReloaded''] \<and>
    queue (cycle [f] code' (cycle [f] code st)) =
      queue st @ [''notify:haproxyStarted'', ''notify:haproxyStarted'']"
proof -
  have first: "queue (cycle [f] code st) = queue st @ [''notify:haproxyStarted'']"
    by (rule cycle_started [OF assms(1)]) (simp add: haproxy_task_no_pid_file [OF assms(1-3)])
  let ?up = "daemon_up d c (cycle [f] code st)"
  have "files ?up d = Some c" and "kill_error ?up c = None"
    by (simp_all add: daemon_up_def)
  moreover have "read_error ?up d = None" and "unlink_error ?up d = None"
    using assms(4,5)
    by (simp_all add: daemon_up_def cycle_frame haproxy_task_single forEach_callback_frame)
  ultimately have "restart (haproxy_task [f] ?up) (next_cell ?up)"
    by (intro haproxy_task_terminated [OF assms(1,2)])
  then have "queue (cycle [f] code' ?up) = queue ?up @ [''notify:haproxyReloaded'']"
    by (rule cycle_reloaded [OF assms(1)])
  moreover have "queue ?up = queue (cycle [f] code st)"
    by (simp add: daemon_up_def)
  ultimately have "queue (cycle [f] code' ?up) =
      queue st @ [''notify:haproxyStarted'', ''notify:haproxyReloaded'']"
    using first by simp
  with first started_again_when_no_pid_file_was_written [OF assms(1-3)] show ?thesis
    by simp
qed

theorem C7_started_then_reloaded_witness:
  "files boot ''/run/proxy-a.pid'' = None \<and>
   queue (cycle [proxy_a] (Some 0) boot) = [''notify:haproxyStarted''] \<and>
   queue (cycle [proxy_a] (Some 0)
       (daemon_up ''/run/proxy-a.pid'' ''4242'' (cycle [proxy_a] (Some 0) boot))) =
     [''notify:haproxyStarted'', ''notify:haproxyReloaded'']"
  using C7_started_then_reloaded [of proxy_a "''/etc/proxy/a.cfg''" "''/run/proxy-a.pid''" boot
    "Some 0" "Some 0" "''4242''"]
  by (simp add: proxy_a_def dest0_def boot_def)

subsection \<open>C8: several configuration files for one PID file\<close>

text \<open>
  Claim C8 says that, of several configuration files mapped to one PID file, only the
  first is used and one spawn occurs. For \<open>proxy_ab\<close> started in \<open>boot\<close> two children are
  spawned, the second on the second file, both for \<open>/run/proxy-a.pid\<close>.
\<close>

theorem C8_counterexample:
  "map cfg (new_instances boot (haproxy_task [proxy_ab] boot)) =
     [''/etc/proxy/a.cfg'', ''/etc/proxy/b.cfg''] \<and>
   map pidfile (new_instances boot (haproxy_task [proxy_ab] boot)) =
     [Some ''/run/proxy-a.pid'', Some ''/run/proxy-a.pid'']"
  by (simp add: run_defs)

text \<open>
  Claim C8, as the code has it: when a target is a mapping of several configPath sources
  to one pidFilePath destination, every source is used: one spawn occurs per source entry,
  in the order of the entries, each with its own resolved \<open>configPath\<close> as the spawn
  argument and all with the same destination \<open>f.dest[0]\<close>.
\<close>

theorem C8_every_src_entry_is_spawned:
  "new_instances st (forEach_callback f st) =
     map (\<lambda>p. \<lparr>cfg = path_resolve (plugin_root st) p, pidfile = dest0 f,
                fdest = dest f, cell = next_cell st\<rparr>) (src f)"
  by (simp add: new_instances_forEach_callback launched_def)

subsection \<open>C9: what comes before the spawn\<close>

text \<open>
  Claim C9 says that the termination of the prior process is complete before the spawn
  of its replacement is issued. In \<open>live_pid\<close> the PID file names process 4242, which
  runs. The task for \<open>proxy_a\<close> sends it the signal, deletes the PID file and issues the
  spawn; \<open>process.kill\<close> has only sent the signal, and nothing in the task waits for the
  process to end. After the spawn, which is the task's last call, process 4242 is still
  there: a signal to it would still be delivered.
\<close>

theorem C9_counterexample:
  "kill_error live_pid ''4242'' = None \<and>
   new_calls live_pid (haproxy_task [proxy_a] live_pid) =
     [ExistsSync (Some ''/run/proxy-a.pid''), ReadFileSync (Some ''/run/proxy-a.pid''),
      Kill ''4242'', UnlinkSync (Some ''/run/proxy-a.pid''),
      Spawn \<lparr>cfg = ''/etc/proxy/a.cfg'', pidfile = Some ''/run/proxy-a.pid'',
             fdest = [''/run/proxy-a.pid''], cell = 0\<rparr>] \<and>
   kill_error (haproxy_task [proxy_a] live_pid) ''4242'' = None"
  by (simp add: run_defs)

text \<open>
  Claim C9, as the code has it: in one run of the \<open>filter\<close> callback, which is one cycle
  on the PID file \<open>f.dest[0]\<close>, the spawn is the last call, and what comes before it is
  decided by the state the run begins in. The check for the PID file always comes first.
  When the PID file is there, it is read; when it was read, the signal is sent to the
  process its content names; when the signal was delivered, the deletion of the PID file
  is called. Each of these calls has returned or thrown before the next is made, so when
  all succeed the PID file is gone and \<open>_restart\<close> is set before the spawn is issued.
  But the task only sends the signal: it takes no process away and waits for none to
  end, so the process table is after the run what it was before.
\<close>

theorem C9_signal_and_unlink_precede_spawn:
  "new_calls st (filter_callback g f p st) =
     (case dest0 f of
        None \<Rightarrow> [ExistsSync None]
      | Some d \<Rightarrow>
          ExistsSync (Some d) #
          (case files st d of
             None \<Rightarrow> []
           | Some c \<Rightarrow>
               ReadFileSync (Some d) #
               (case read_error st d of
                  Some e \<Rightarrow> []
                | None \<Rightarrow>
                    Kill c #
                    (case kill_error st c of
                       Some e \<Rightarrow> []
                     | None \<Rightarrow> [UnlinkSync (Some d)])))) @
     [Spawn (launched g f p st)] \<and>
   kill_error (filter_callback g f p st) = kill_error st \<and>
   (dest0 f = Some d \<longrightarrow> files st d = Some c \<longrightarrow> read_error st d = None \<longrightarrow>
    kill_error st c = None \<longrightarrow> unlink_error st d = None \<longrightarrow>
      files (filter_callback g f p st) d = None \<and> restart (filter_callback g f p st) g)"
proof -
  have "new_calls st (filter_callback g f p st) =
     (case dest0 f of
        None \<Rightarrow> [ExistsSync None]
      | Some d \<Rightarrow>
          ExistsSync (Some d) #
          (case files st d of
             None \<Rightarrow> []
           | Some c \<Rightarrow>
               ReadFileSync (Some d) #
               (case read_error st d of
                  Some e \<Rightarrow> []
                | None \<Rightarrow>
                    Kill c #
                    (case kill_error st c of
                       Some e \<Rightarrow> []
                     | None \<Rightarrow> [UnlinkSync (Some d)])))) @
     [Spawn (launched g f p st)]"
    by (simp add: env_defs new_calls_def Let_def split: option.splits)
  moreover have "files (filter_callback g f p st) d = None \<and> restart (filter_callback g f p st) g"
    if "dest0 f = Some d" "files st d = Some c" "read_error st d = None"
      "kill_error st c = None" "unlink_error st d = None"
    by (simp add: filter_callback_terminated [OF that])
  ultimately show ?thesis
    by (simp add: filter_callback_frame)
qed

text \<open>In \<open>live_pid\<close>: the signal to 4242 and the deletion come before the spawn, the PID
  file is gone and cell 0 is set, and process 4242 is still there.\<close>

theorem C9_signal_and_unlink_precede_spawn_witness:
  "new_calls live_pid (filter_callback 0 proxy_a ''/etc/proxy/a.cfg'' live_pid) =
     [ExistsSync (Some ''/run/proxy-a.pid''), ReadFileSync (Some ''/run/proxy-a.pid''),
      Kill ''4242'', UnlinkSync (Some ''/run/proxy-a.pid''),
      Spawn (launched 0 proxy_a ''/etc/proxy/a.cfg'' live_pid)] \<and>
   kill_error (filter_callback 0 proxy_a ''/etc/proxy/a.cfg'' live_pid) = kill_error live_pid \<and>
   files (filter_callback 0 proxy_a ''/etc/proxy/a.cfg'' live_pid) ''/run/proxy-a.pid'' = None \<and>
   restart (filter_callback 0 proxy_a ''/etc/proxy/a.cfg'' live_pid) 0"
proof -
  have h: "dest0 proxy_a = Some ''/run/proxy-a.pid''"
    "files live_pid ''/run/proxy-a.pid'' = Some ''4242''"
    "read_error live_pid ''/run/proxy-a.pid'' = None"
    "kill_error live_pid ''4242'' = None"
    "unlink_error live_pid ''/run/proxy-a.pid'' = None"
    by (simp_all add: proxy_a_def dest0_def live_pid_def boot_def)
  from C9_signal_and_unlink_precede_spawn [of live_pid 0 proxy_a "''/etc/proxy/a.cfg''"
      "''/run/proxy-a.pid''" "''4242''"]
  show ?thesis
    by (simp add: h)
qed

subsection \<open>C10: one \<open>_restart\<close> for the whole group\<close>



end
